theory Spec2Isabelle
  imports Complex_Main
begin

section \<open>The gate library of \<^verbatim>\<open>app.py\<close>\<close>

text \<open>
  \<^verbatim>\<open>GATE_MATRICES\<close> is a dictionary from the gate key to a dictionary with the
  entries \<^verbatim>\<open>name\<close>, \<^verbatim>\<open>symbol\<close>, \<^verbatim>\<open>matrix\<close> and, for CNOT only,
  \<^verbatim>\<open>is_multi_qubit\<close>. It is an association list here, in the order of the source (the
  palette enumerates it in that order). A NumPy array is a list of rows. The entries are
  complex numbers; the doubles of NumPy are idealised as exact reals, so that
  \<^verbatim>\<open>np.sqrt(2)\<close> is \<open>sqrt 2\<close> and \<^verbatim>\<open>np.exp(1j * np.pi / 4)\<close> is
  \<open>exp (\<i> * pi / 4)\<close>.
\<close>

type_synonym matrix = "complex list list"

record gate_info =
  name :: string
  symbol :: string
  matrix :: "matrix option"
  is_multi_qubit :: "bool option"

text \<open>\<^verbatim>\<open>np.array(...) / np.sqrt(2)\<close>: every entry is divided by the scalar.\<close>

definition array_div :: "matrix \<Rightarrow> complex \<Rightarrow> matrix" where
  "array_div A c = map (map (\<lambda>x. x / c)) A"

definition GATE_MATRICES :: "(string \<times> gate_info) list" where
  "GATE_MATRICES =
    [(''X'', \<lparr>name = ''Pauli-X'', symbol = ''X'',
              matrix = Some [[0, 1], [1, 0]], is_multi_qubit = None\<rparr>),
     (''Y'', \<lparr>name = ''Pauli-Y'', symbol = ''Y'',
              matrix = Some [[0, - \<i>], [\<i>, 0]], is_multi_qubit = None\<rparr>),
     (''Z'', \<lparr>name = ''Pauli-Z'', symbol = ''Z'',
              matrix = Some [[1, 0], [0, - 1]], is_multi_qubit = None\<rparr>),
     (''H'', \<lparr>name = ''Hadamard'', symbol = ''H'',
              matrix = Some (array_div [[1, 1], [1, - 1]] (complex_of_real (sqrt 2))),
              is_multi_qubit = None\<rparr>),
     (''S'', \<lparr>name = ''S Gate'', symbol = ''S'',
              matrix = Some [[1, 0], [0, \<i>]], is_multi_qubit = None\<rparr>),
     (''T'', \<lparr>name = ''T Gate'', symbol = ''T'',
              matrix = Some [[1, 0], [0, exp (\<i> * complex_of_real pi / 4)]],
              is_multi_qubit = None\<rparr>),
     (''I'', \<lparr>name = ''Identity'', symbol = ''I'',
              matrix = Some [[1, 0], [0, 1]], is_multi_qubit = None\<rparr>),
     (''CNOT'', \<lparr>name = ''CNOT'', symbol = ''CNOT'',
              matrix = None, is_multi_qubit = Some True\<rparr>)]"

text \<open>\<^verbatim>\<open>GATE_MATRICES[kind]['matrix']\<close>; a missing key is \<open>None\<close> as well.\<close>

definition matrix_of :: "string \<Rightarrow> matrix option" where
  "matrix_of kind = (case map_of GATE_MATRICES kind of None \<Rightarrow> None | Some info \<Rightarrow> matrix info)"

subsection \<open>The matrices as the specification writes them\<close>

definition scalar_mult :: "complex \<Rightarrow> matrix \<Rightarrow> matrix" where
  "scalar_mult c A = map (map (\<lambda>x. c * x)) A"

definition spec_I :: matrix where "spec_I = [[1, 0], [0, 1]]"
definition spec_X :: matrix where "spec_X = [[0, 1], [1, 0]]"
definition spec_Y :: matrix where "spec_Y = [[0, - \<i>], [\<i>, 0]]"
definition spec_Z :: matrix where "spec_Z = [[1, 0], [0, - 1]]"
definition spec_H :: matrix where
  "spec_H = scalar_mult (1 / complex_of_real (sqrt 2)) [[1, 1], [1, - 1]]"
definition spec_S :: matrix where "spec_S = [[1, 0], [0, \<i>]]"
definition spec_T :: matrix where
  "spec_T = [[1, 0], [0, exp (\<i> * complex_of_real (pi / 4))]]"

section \<open>The session state and its handlers\<close>

text \<open>
  A placement is one dictionary of \<^verbatim>\<open>st.session_state.circuit_data\<close>; the execute
  handler reads its keys \<^verbatim>\<open>type\<close> and \<^verbatim>\<open>qubit\<close>, and \<^verbatim>\<open>target\<close> for a CNOT
  only, so \<^verbatim>\<open>target\<close> may be absent. Qubit indices are natural numbers (the
  specification's indices start at 0); negative Python indices are not modelled.
\<close>

record placement =
  gtype :: string
  qubit :: nat
  target :: "nat option"

record session_state =
  num_qubits :: nat
  circuit_data :: "placement list"
  selected_gate :: "string option"

text \<open>Lines 29 to 32: the defaults of a fresh session; no gate is selected yet.\<close>

definition initial_state :: session_state where
  "initial_state = \<lparr>num_qubits = 2, circuit_data = [], selected_gate = None\<rparr>"

text \<open>
  The error kinds of the specification (section 7), followed by the Python exceptions the
  execute handler can raise.
\<close>

datatype error =
    UnknownGateKind | InvalidQubitIndex | InvalidQubitCount | InvalidCircuit
  | DimensionOverflow
  | KeyError | AttributeError | CircuitError

text \<open>
  Lines 36 to 38: the slider has the bounds 1 and 8 and its value, a position between the
  bounds, is stored as \<^verbatim>\<open>num_qubits\<close>.
\<close>

definition slider_min :: nat where "slider_min = 1"
definition slider_max :: nat where "slider_max = 8"

definition set_num_qubits :: "nat \<Rightarrow> session_state \<Rightarrow> session_state" where
  "set_num_qubits n s = s\<lparr>num_qubits := n\<rparr>"

text \<open>Lines 40 to 42: the reset button.\<close>

definition reset_circuit :: "session_state \<Rightarrow> session_state" where
  "reset_circuit s = s\<lparr>circuit_data := []\<rparr>"

text \<open>Lines 47 to 51: a palette button stores the key of its gate.\<close>

definition select_gate :: "string \<Rightarrow> session_state \<Rightarrow> session_state" where
  "select_gate gate_name s = s\<lparr>selected_gate := Some gate_name\<rparr>"

text \<open>
  Lines 104 to 106: the body of \<^verbatim>\<open>place_gate\<close> is \<^verbatim>\<open>pass\<close>. It returns
  \<^verbatim>\<open>None\<close>, raises nothing and leaves the session as it is. Its arguments are
  unconstrained Python values; the indices are integers here.
\<close>

definition place_gate :: "int \<Rightarrow> int \<Rightarrow> string \<Rightarrow> session_state \<Rightarrow> (error + unit) \<times> session_state" where
  "place_gate qubit_index time gate_type s = (Inr (), s)"

section \<open>The state-vector engine\<close>

type_synonym statevector = "complex list"

text \<open>
  Modelled from the spec: the state-vector engine. The source hands the circuit to
  \<^verbatim>\<open>QuantumCircuit\<close>, \<^verbatim>\<open>Aer.get_backend('statevector_simulator')\<close> and
  \<^verbatim>\<open>execute\<close> of the qiskit library, whose code is not part of this repository.
  Section 4.3 of the specification says what that library delivers: the state starts as the all-zero
  basis state of dimension \<open>2 ^ N\<close>; each placement's matrix is resolved through the gate
  library and applied by index arithmetic on the amplitudes that differ in the bit of the
  placement's qubit; CNOT permutes the basis states whose control bit is set by flipping
  the target bit. Bit \<open>q\<close> of a basis index is qubit \<open>q\<close> (qubit 0 is the least
  significant bit), the convention of the library the source calls: bit \<open>q\<close> of \<open>i\<close> is
  set when \<open>i div 2 ^ q\<close> is odd, and adding or subtracting \<open>2 ^ q\<close> sets or clears it.
  On a vector of length \<open>2 ^ N\<close> and a qubit below \<open>N\<close> every index that is read lies
  within the vector (lemmas \<open>set_bit_below\<close>, \<open>unset_bit_below\<close>, \<open>flip_bit_below\<close>).
\<close>

definition zero_state :: "nat \<Rightarrow> statevector" where
  "zero_state n = map (\<lambda>i. if i = 0 then 1 else 0) [0..<2 ^ n]"

definition bit_set :: "nat \<Rightarrow> nat \<Rightarrow> bool" where
  "bit_set i q = odd (i div 2 ^ q)"

definition apply_single :: "matrix \<Rightarrow> nat \<Rightarrow> statevector \<Rightarrow> statevector" where
  "apply_single U q v =
     map (\<lambda>i. if bit_set i q
               then U ! 1 ! 0 * v ! (i - 2 ^ q) + U ! 1 ! 1 * v ! i
               else U ! 0 ! 0 * v ! i + U ! 0 ! 1 * v ! (i + 2 ^ q))
         [0..<length v]"

definition flip_target :: "nat \<Rightarrow> nat \<Rightarrow> nat" where
  "flip_target t i = (if bit_set i t then i - 2 ^ t else i + 2 ^ t)"

definition apply_cnot :: "nat \<Rightarrow> nat \<Rightarrow> statevector \<Rightarrow> statevector" where
  "apply_cnot c t v =
     map (\<lambda>i. v ! (if bit_set i c then flip_target t i else i)) [0..<length v]"

text \<open>
  Modelled from the spec: the circuit object of the library, a qubit count and the
  instructions appended so far, each a single-qubit matrix on a qubit or a CNOT on a
  control and a target.
\<close>

datatype instruction = Unitary1 matrix nat | CX nat nat

record quantum_circuit =
  qc_num_qubits :: nat
  qc_data :: "instruction list"

definition QuantumCircuit :: "nat \<Rightarrow> quantum_circuit" where
  "QuantumCircuit n = \<lparr>qc_num_qubits = n, qc_data = []\<rparr>"

text \<open>\<^verbatim>\<open>str.lower\<close>: the ASCII capitals go to their small letters, every other character stays.\<close>

definition lower_char :: "char \<Rightarrow> char" where
  "lower_char c =
     (case map_of (zip ''ABCDEFGHIJKLMNOPQRSTUVWXYZ'' ''abcdefghijklmnopqrstuvwxyz'') c of
        None \<Rightarrow> c
      | Some d \<Rightarrow> d)"

definition lower :: "string \<Rightarrow> string" where
  "lower s = map lower_char s"

text \<open>
  Modelled from the spec: the single-qubit gate methods of \<^verbatim>\<open>QuantumCircuit\<close>
  (\<^verbatim>\<open>x\<close>, \<^verbatim>\<open>y\<close>, \<^verbatim>\<open>z\<close>, \<^verbatim>\<open>h\<close>, \<^verbatim>\<open>s\<close>, \<^verbatim>\<open>t\<close>, \<^verbatim>\<open>i\<close>), which the source
  reaches with \<^verbatim>\<open>getattr(qc, gate_type.lower())\<close>. They are the lower-cased keys of the
  library entries that carry a matrix, and each applies the matrix of its entry
  (section 4.3, step 2a). A name outside the table is an \<^verbatim>\<open>AttributeError\<close>, a qubit
  outside the circuit a \<^verbatim>\<open>CircuitError\<close>.
\<close>

definition qc_methods :: "(string \<times> matrix) list" where
  "qc_methods =
     List.map_filter (\<lambda>(k, info). map_option (\<lambda>m. (lower k, m)) (matrix info)) GATE_MATRICES"

text \<open>
  Modelled from the spec: appending an instruction. The library checks the qubit arguments
  when a gate method is called: each below the qubit count and, for \<^verbatim>\<open>cx\<close>, control
  and target distinct.
\<close>

definition qc_append :: "instruction \<Rightarrow> quantum_circuit \<Rightarrow> quantum_circuit" where
  "qc_append ins qc = qc\<lparr>qc_data := qc_data qc @ [ins]\<rparr>"

definition qc_gate :: "string \<Rightarrow> nat \<Rightarrow> quantum_circuit \<Rightarrow> error + quantum_circuit" where
  "qc_gate method q qc =
     (case map_of qc_methods method of
        None \<Rightarrow> Inl AttributeError
      | Some U \<Rightarrow> if q < qc_num_qubits qc then Inr (qc_append (Unitary1 U q) qc)
                  else Inl CircuitError)"

definition qc_cx :: "nat \<Rightarrow> nat \<Rightarrow> quantum_circuit \<Rightarrow> error + quantum_circuit" where
  "qc_cx c t qc =
     (if c < qc_num_qubits qc \<and> t < qc_num_qubits qc \<and> c \<noteq> t
      then Inr (qc_append (CX c t) qc) else Inl CircuitError)"

text \<open>
  Modelled from the spec: the simulation applies the instructions in order to the all-zero
  state (section 4.3, steps 1 to 3).
\<close>

fun apply_instruction :: "statevector \<Rightarrow> instruction \<Rightarrow> statevector" where
  "apply_instruction v (Unitary1 U q) = apply_single U q v"
| "apply_instruction v (CX c t) = apply_cnot c t v"

text \<open>
  Modelled from the spec: \<^verbatim>\<open>execute(qc, backend).result().get_statevector()\<close>, the
  final state vector.
\<close>

definition get_statevector :: "quantum_circuit \<Rightarrow> statevector" where
  "get_statevector qc = foldl apply_instruction (zero_state (qc_num_qubits qc)) (qc_data qc)"

subsection \<open>The execute handler\<close>

text \<open>Lines 77 to 83: the body of the loop over \<^verbatim>\<open>circuit_data\<close>.\<close>

definition apply_placement :: "placement \<Rightarrow> quantum_circuit \<Rightarrow> error + quantum_circuit" where
  "apply_placement gate qc =
     (if gtype gate = ''CNOT''
      then (case target gate of
              None \<Rightarrow> Inl KeyError
            | Some t \<Rightarrow> qc_cx (qubit gate) t qc)
      else qc_gate (lower (gtype gate)) (qubit gate) qc)"

text \<open>Line 76: the loop; an exception ends it.\<close>

fun apply_gates :: "placement list \<Rightarrow> quantum_circuit \<Rightarrow> error + quantum_circuit" where
  "apply_gates [] qc = Inr qc"
| "apply_gates (gate # rest) qc =
     (case apply_placement gate qc of
        Inl e \<Rightarrow> Inl e
      | Inr qc' \<Rightarrow> apply_gates rest qc')"

text \<open>
  Lines 68 to 97. An empty \<^verbatim>\<open>circuit_data\<close> gives the warning and no simulation;
  otherwise the circuit is built on \<^verbatim>\<open>num_qubits\<close> qubits and simulated. The session
  state is only read.
\<close>

datatype outcome = Warning string | Raised error | Success statevector

definition execute_circuit :: "session_state \<Rightarrow> outcome" where
  "execute_circuit s =
     (if circuit_data s = [] then Warning ''Please add some gates to the circuit first!''
      else (case apply_gates (circuit_data s) (QuantumCircuit (num_qubits s)) of
              Inl e \<Rightarrow> Raised e
            | Inr qc \<Rightarrow> Success (get_statevector qc)))"

subsection \<open>The states a session can reach\<close>

text \<open>
  Every run of the script is started by one widget: the slider moved to a position within
  its bounds, the reset button, a palette button, or the execute button, which only reads
  the session and so adds no state. \<^verbatim>\<open>place_gate\<close> is called nowhere; it is listed
  so that the states cover every operation the program defines.
\<close>

inductive reachable :: "session_state \<Rightarrow> bool" where
  start: "reachable initial_state"
| slide: "reachable s \<Longrightarrow> slider_min \<le> n \<Longrightarrow> n \<le> slider_max \<Longrightarrow> reachable (set_num_qubits n s)"
| reset: "reachable s \<Longrightarrow> reachable (reset_circuit s)"
| select: "reachable s \<Longrightarrow> k \<in> set (map fst GATE_MATRICES) \<Longrightarrow> reachable (select_gate k s)"
| place: "reachable s \<Longrightarrow> reachable (snd (place_gate q t g s))"

subsection \<open>Notions of the specification\<close>

text \<open>The squared-magnitude sum of a state vector.\<close>

definition norm_sq :: "statevector \<Rightarrow> real" where
  "norm_sq v = sum_list (map (\<lambda>z. (cmod z)\<^sup>2) v)"


text \<open>Matrix product, conjugate transpose, matrix times vector, identity matrix.\<close>

definition dagger :: "matrix \<Rightarrow> matrix" where
  "dagger A = map (map cnj) (transpose A)"

definition mat_vec :: "matrix \<Rightarrow> complex list \<Rightarrow> complex list" where
  "mat_vec A v = map (\<lambda>row. sum_list (map2 (*) row v)) A"

definition mat_mul :: "matrix \<Rightarrow> matrix \<Rightarrow> matrix" where
  "mat_mul A B = map (\<lambda>row. map (\<lambda>col. sum_list (map2 (*) row col)) (transpose B)) A"

definition identity :: "nat \<Rightarrow> matrix" where
  "identity n = map (\<lambda>i. map (\<lambda>j. if i = j then 1 else 0) [0..<n]) [0..<n]"

text \<open>The basis state \<open>|k>\<close> on \<open>n\<close> qubits.\<close>

definition basis_state :: "nat \<Rightarrow> nat \<Rightarrow> statevector" where
  "basis_state n k = map (\<lambda>i. if i = k then 1 else 0) [0..<2 ^ n]"



text \<open>
  The matrix of the two-qubit CNOT with control \<open>c\<close> and target \<open>t\<close>: column \<open>j\<close> is the
  image of the basis state \<open>|j>\<close>.
\<close>

definition cnot_matrix :: "nat \<Rightarrow> nat \<Rightarrow> matrix" where
  "cnot_matrix c t = map (\<lambda>i. map (\<lambda>j. apply_cnot c t (basis_state 2 j) ! i) [0..<4]) [0..<4]"


text \<open>
  The session of the canonical entanglement test: two qubits, a Hadamard on qubit 0, then
  a CNOT with control 0 and target 1.
\<close>

definition bell_session :: session_state where
  "bell_session =
     \<lparr>num_qubits = 2,
      circuit_data = [\<lparr>gtype = ''H'', qubit = 0, target = None\<rparr>,
                      \<lparr>gtype = ''CNOT'', qubit = 0, target = Some 1\<rparr>],
      selected_gate = None\<rparr>"

text \<open>
  A \<open>2 \<times> 2\<close> matrix is unitary: both products with its conjugate transpose are the
  identity, and applying the matrix and then its conjugate transpose gives every state
  back.
\<close>

definition unitary2 :: "matrix \<Rightarrow> bool" where
  "unitary2 U = (mat_mul U (dagger U) = identity 2 \<and> mat_mul (dagger U) U = identity 2 \<and>
     (\<forall>a b. mat_vec (dagger U) (mat_vec U [a, b]) = [a, b]))"


section \<open>Properties of the gate library\<close>

text \<open>
  C1: for each of the single-qubit kinds I, X, Y, Z, H, S and T, the matrix stored in
  \<^verbatim>\<open>GATE_MATRICES\<close> is the matrix the specification gives, entry by entry
  (up to global phase: the phase factor is 1).
\<close>

theorem gate_matrices_match_spec:
  "matrix_of ''I'' = Some spec_I \<and> matrix_of ''X'' = Some spec_X \<and>
   matrix_of ''Y'' = Some spec_Y \<and> matrix_of ''Z'' = Some spec_Z \<and>
   matrix_of ''H'' = Some spec_H \<and> matrix_of ''S'' = Some spec_S \<and>
   matrix_of ''T'' = Some spec_T"
  by (simp add: matrix_of_def GATE_MATRICES_def array_div_def scalar_mult_def
      spec_I_def spec_X_def spec_Y_def spec_Z_def spec_H_def spec_S_def spec_T_def)

section \<open>Index arithmetic on basis states\<close>

text \<open>
  The index arithmetic of the engine agrees with the bit operations on natural numbers,
  and setting, clearing or flipping a bit below \<open>n\<close> stays below \<open>2 ^ n\<close>.
\<close>

lemma bit_set_iff_bit: "bit_set i q = bit i q"
  by (simp add: bit_set_def bit_iff_odd)

lemma add_pow_eq_set_bit: "\<not> bit i q \<Longrightarrow> i + 2 ^ q = set_bit q (i::nat)"
  by (simp add: set_bit_eq)


lemma set_unset: "bit i q \<Longrightarrow> set_bit q (unset_bit q (i::nat)) = i"
  by (rule bit_eqI) (auto simp: bit_simps)

lemma flip_flip: "flip_bit q (flip_bit q (i::nat)) = i"
  by (rule bit_eqI) (auto simp: bit_simps)

lemma sub_pow_eq_unset_bit:
  assumes "bit i q"
  shows "i - 2 ^ q = unset_bit q (i::nat)"
proof -
  have "\<not> bit (unset_bit q i) q"
    by (simp add: bit_simps)
  then have "unset_bit q i + 2 ^ q = set_bit q (unset_bit q i)"
    by (rule add_pow_eq_set_bit)
  also have "\<dots> = i"
    using assms by (rule set_unset)
  finally show ?thesis
    by simp
qed

lemma flip_target_eq_flip_bit: "flip_target t i = flip_bit t i"
  by (simp add: flip_target_def bit_set_iff_bit flip_bit_eq_if add_pow_eq_set_bit sub_pow_eq_unset_bit)

lemma set_bit_below:
  assumes "i < 2 ^ n" and "q < n"
  shows "set_bit q (i::nat) < 2 ^ n"
proof -
  have "take_bit n (set_bit q i) = set_bit q (take_bit n i)"
    using assms(2) by (simp add: take_bit_set_bit_eq)
  also have "\<dots> = set_bit q i"
    using assms(1) by (simp add: take_bit_nat_eq_self)
  finally show ?thesis
    by (simp add: take_bit_nat_eq_self_iff)
qed

lemma unset_bit_below:
  assumes "i < 2 ^ n" and "q < n"
  shows "unset_bit q (i::nat) < 2 ^ n"
proof -
  have "take_bit n (unset_bit q i) = unset_bit q i"
    using assms by (simp add: take_bit_unset_bit_eq take_bit_nat_eq_self)
  then show ?thesis
    by (simp add: take_bit_nat_eq_self_iff)
qed

lemma flip_bit_below: "i < 2 ^ n \<Longrightarrow> q < n \<Longrightarrow> flip_bit q (i::nat) < 2 ^ n"
  by (simp add: flip_bit_eq_if set_bit_below unset_bit_below)

section \<open>Every gate keeps the squared-magnitude sum\<close>


lemma norm_sq_nth: "norm_sq v = (\<Sum>i = 0..<length v. (cmod (v ! i))\<^sup>2)"
  unfolding norm_sq_def by (simp add: sum_list_sum_nth)

lemma length_apply_single [simp]: "length (apply_single U q v) = length v"
  by (simp add: apply_single_def)

lemma length_apply_cnot [simp]: "length (apply_cnot c t v) = length v"
  by (simp add: apply_cnot_def)


lemma apply_cnot_preserves_norm:
  assumes len: "length v = 2 ^ n" and c: "c < n" and t: "t < n" and ct: "c \<noteq> t"
  shows "norm_sq (apply_cnot c t v) = norm_sq v"
proof -
  let ?p = "\<lambda>i::nat. if bit i c then flip_bit t i else i"
  let ?S = "{0..<(2::nat) ^ n}"
  have bij: "bij_betw ?p ?S ?S"
    using ct t by (intro bij_betw_byWitness [where f' = ?p]) (auto simp: flip_bit_below bit_simps flip_flip)
  have "norm_sq (apply_cnot c t v) = (\<Sum>i \<in> ?S. (cmod (apply_cnot c t v ! i))\<^sup>2)"
    by (simp add: norm_sq_nth len)
  also have "\<dots> = (\<Sum>i \<in> ?S. (cmod (v ! ?p i))\<^sup>2)"
    by (rule sum.cong) (simp_all add: apply_cnot_def len bit_set_iff_bit flip_target_eq_flip_bit)
  also have "\<dots> = (\<Sum>i \<in> ?S. (cmod (v ! i))\<^sup>2)"
    by (rule sum.reindex_bij_betw [OF bij])
  also have "\<dots> = norm_sq v"
    by (simp add: norm_sq_nth len)
  finally show ?thesis .
qed

subsection \<open>The matrices of the library\<close>

lemma sqrt2_sq: "complex_of_real (sqrt 2) * complex_of_real (sqrt 2) = 2"
  by (metis of_real_mult of_real_numeral real_sqrt_mult_self abs_numeral)






lemma T_entry: "exp (\<i> * complex_of_real pi / 4) = cis (pi / 4)"
  by (simp add: cis_conv_exp)




subsection \<open>Circuits\<close>

lemma qc_methods_eq:
  "qc_methods =
     [(''x'', [[0, 1], [1, 0]]), (''y'', [[0, - \<i>], [\<i>, 0]]), (''z'', [[1, 0], [0, - 1]]),
      (''h'', array_div [[1, 1], [1, - 1]] (complex_of_real (sqrt 2))),
      (''s'', [[1, 0], [0, \<i>]]),
      (''t'', [[1, 0], [0, exp (\<i> * complex_of_real pi / 4)]]),
      (''i'', [[1, 0], [0, 1]])]"
  by (simp add: qc_methods_def GATE_MATRICES_def List.map_filter_simps lower_def lower_char_def)















section \<open>Execution\<close>

lemma apply_single_4_q0:
  "apply_single [[a, b], [c, d]] 0 [x0, x1, x2, x3]
     = [a * x0 + b * x1, c * x0 + d * x1, a * x2 + b * x3, c * x2 + d * x3]"
  by (simp add: apply_single_def bit_set_def upt_rec_numeral)

lemma apply_cnot_4_01: "apply_cnot 0 1 [x0, x1, x2, x3] = [x0, x3, x2, x1]"
  by (simp add: apply_cnot_def bit_set_def flip_target_def upt_rec_numeral)

lemma apply_cnot_4_10: "apply_cnot 1 0 [x0, x1, x2, x3] = [x0, x1, x3, x2]"
  by (simp add: apply_cnot_def bit_set_def flip_target_def upt_rec_numeral)

lemma zero_state_2: "zero_state 2 = [1, 0, 0, 0]"
  by (simp add: zero_state_def upt_conv_Cons)

lemma bell_circuit:
  "apply_gates (circuit_data bell_session) (QuantumCircuit (num_qubits bell_session))
     = Inr \<lparr>qc_num_qubits = 2,
            qc_data = [Unitary1 (array_div [[1, 1], [1, - 1]] (complex_of_real (sqrt 2))) 0,
                       CX 0 1]\<rparr>"
  by (simp add: bell_session_def apply_placement_def qc_gate_def qc_cx_def qc_append_def
      QuantumCircuit_def qc_methods_eq lower_def lower_char_def)

text \<open>
  C3: on two qubits, from \<open>|00>\<close>, the placements H on qubit 0 and CNOT with control 0 and
  target 1 give the Bell state \<open>(1/sqrt 2, 0, 0, 1/sqrt 2)\<close> in the basis order
  \<open>|00>, |01>, |10>, |11>\<close> (index \<open>i\<close> has qubit \<open>q\<close> in bit \<open>q\<close>). The amplitudes
  are equal, so they are within every tolerance.
\<close>

theorem bell_state:
  "execute_circuit bell_session
     = Success [complex_of_real (1 / sqrt 2), 0, 0, complex_of_real (1 / sqrt 2)]"
proof -
  have "circuit_data bell_session \<noteq> []"
    by (simp add: bell_session_def)
  then show ?thesis
    by (simp add: execute_circuit_def bell_circuit get_statevector_def zero_state_2
        array_div_def apply_single_4_q0 apply_cnot_4_01 [unfolded One_nat_def])
qed



text \<open>
  C4, as stated: an empty circuit on three qubits would return the all-zero basis state.
  The handler returns no state vector for it.
\<close>

theorem empty_circuit_returns_zero_state_counterexample:
  "execute_circuit \<lparr>num_qubits = 3, circuit_data = [], selected_gate = None\<rparr>
     \<noteq> Success (basis_state 3 0)"
  by (simp add: execute_circuit_def)

text \<open>
  C4, amended: executing an empty circuit, for \<open>N = 3\<close> as for every qubit count, runs no
  simulation; the handler gives the warning and no state vector. The all-zero basis state
  of length 8, amplitude 1 at index 0, is the state of the simulator on three qubits
  before any gate.
\<close>

theorem empty_circuit_warns:
  "execute_circuit (s\<lparr>circuit_data := []\<rparr>) = Warning ''Please add some gates to the circuit first!'' \<and>
   get_statevector (QuantumCircuit 3) = [1, 0, 0, 0, 0, 0, 0, 0] \<and>
   get_statevector (QuantumCircuit 3) = basis_state 3 0"
  by (simp add: execute_circuit_def get_statevector_def QuantumCircuit_def zero_state_def
      basis_state_def upt_conv_Cons)

text \<open>
  C5, as stated: a request with qubit index 5 on the two-qubit initial session would fail
  with \<open>InvalidQubitIndex\<close>. \<^verbatim>\<open>place_gate\<close> returns normally.
\<close>

theorem place_gate_invalid_index_counterexample:
  "fst (place_gate 5 0 ''X'' initial_state) \<noteq> Inl InvalidQubitIndex \<and>
   5 \<ge> int (num_qubits initial_state)"
  by (simp add: place_gate_def initial_state_def)

text \<open>
  C5, amended: for every session and every request, whatever its qubit index, time step
  and gate kind, \<^verbatim>\<open>place_gate\<close> returns normally, without an error, and the
  placement sequence is what it was before the call.
\<close>

theorem place_gate_never_fails:
  "fst (place_gate q t g s) = Inr () \<and>
   circuit_data (snd (place_gate q t g s)) = circuit_data s"
  by (simp add: place_gate_def)

section \<open>Unitarity of the library matrices\<close>

lemma identity_2: "identity 2 = [[1, 0], [0, 1]]"
  by (simp add: identity_def upt_conv_Cons)

lemma dagger_2: "dagger [[a, b], [c, d]] = [[cnj a, cnj c], [cnj b, cnj d]]"
  by (simp add: dagger_def)

lemma mat_mul_2:
  "mat_mul [[a, b], [c, d]] [[e, f], [g, h]]
     = [[a * e + b * g, a * f + b * h], [c * e + d * g, c * f + d * h]]"
  by (simp add: mat_mul_def)

lemma mat_vec_2: "mat_vec [[a, b], [c, d]] [x, y] = [a * x + b * y, c * x + d * y]"
  by (simp add: mat_vec_def)

lemmas eval_2 = unitary2_def identity_2 dagger_2 mat_mul_2 mat_vec_2

lemma unitary2_X: "unitary2 [[0, 1], [1, 0]]"
  by (simp add: eval_2)

lemma unitary2_Y: "unitary2 [[0, - \<i>], [\<i>, 0]]"
  by (simp add: eval_2)

lemma unitary2_Z: "unitary2 [[1, 0], [0, - 1]]"
  by (simp add: eval_2)

lemma unitary2_S: "unitary2 [[1, 0], [0, \<i>]]"
  by (simp add: eval_2)

lemma unitary2_I: "unitary2 [[1, 0], [0, 1]]"
  by (simp add: eval_2)

lemma unitary2_T: "unitary2 [[1, 0], [0, exp (\<i> * complex_of_real pi / 4)]]"
  unfolding T_entry
  by (simp add: eval_2 cis_cnj cis_mult mult.assoc [symmetric])

lemma unitary2_H: "unitary2 (array_div [[1, 1], [1, - 1]] (complex_of_real (sqrt 2)))"
proof -
  define r where "r = 1 / complex_of_real (sqrt 2)"
  have rr: "r * r = 1 / 2"
    by (simp add: r_def sqrt2_sq)
  have cr: "cnj r = r"
    by (simp add: r_def)
  have H: "array_div [[1, 1], [1, - 1]] (complex_of_real (sqrt 2)) = [[r, r], [r, - r]]"
    by (simp add: array_div_def r_def)
  have first: "r * (r * a + r * b) + r * (r * a - r * b) = a" for a b
  proof -
    have "r * (r * a + r * b) + r * (r * a - r * b) = 2 * (r * r) * a"
      by (simp add: algebra_simps)
    then show ?thesis
      by (simp add: rr)
  qed
  have second: "r * (r * a + r * b) - r * (r * a - r * b) = b" for a b
  proof -
    have "r * (r * a + r * b) - r * (r * a - r * b) = 2 * (r * r) * b"
      by (simp add: algebra_simps)
    then show ?thesis
      by (simp add: rr)
  qed
  show ?thesis
    unfolding H by (simp add: eval_2 cr rr first second)
qed

lemma library_matrix_cases:
  assumes "matrix_of kind = Some U"
  shows "U \<in> {[[0, 1], [1, 0]], [[0, - \<i>], [\<i>, 0]], [[1, 0], [0, - 1]],
               array_div [[1, 1], [1, - 1]] (complex_of_real (sqrt 2)),
               [[1, 0], [0, \<i>]], [[1, 0], [0, exp (\<i> * complex_of_real pi / 4)]],
               [[1, 0], [0, 1]]}"
  using assms by (auto simp: matrix_of_def GATE_MATRICES_def split: if_splits)

lemma library_matrix_unitary2: "matrix_of kind = Some U \<Longrightarrow> unitary2 U"
  using library_matrix_cases [of kind U]
  by (auto simp: unitary2_X unitary2_Y unitary2_Z unitary2_H unitary2_S unitary2_T unitary2_I)

text \<open>
  C6: every matrix \<open>U\<close> stored for a single-qubit kind satisfies \<open>U U\<^sup>\<dagger> = I\<close> (and
  \<open>U\<^sup>\<dagger> U = I\<close>), and applying \<open>U\<close> and then \<open>U\<^sup>\<dagger>\<close> to a single-qubit
  state, normalised or not, returns that state exactly, hence within the tolerance.
\<close>

theorem library_matrices_unitary:
  assumes "matrix_of kind = Some U"
  shows "mat_mul U (dagger U) = identity 2 \<and> mat_mul (dagger U) U = identity 2 \<and>
         mat_vec (dagger U) (mat_vec U [a, b]) = [a, b]"
  using library_matrix_unitary2 [OF assms] by (simp add: unitary2_def)

theorem library_matrices_unitary_witness:
  "matrix_of ''H'' = Some (array_div [[1, 1], [1, - 1]] (complex_of_real (sqrt 2))) \<and>
   mat_mul (array_div [[1, 1], [1, - 1]] (complex_of_real (sqrt 2)))
     (dagger (array_div [[1, 1], [1, - 1]] (complex_of_real (sqrt 2)))) = identity 2 \<and>
   mat_vec (dagger (array_div [[1, 1], [1, - 1]] (complex_of_real (sqrt 2))))
     (mat_vec (array_div [[1, 1], [1, - 1]] (complex_of_real (sqrt 2))) [1, 0]) = [1, 0]"
proof -
  have h: "matrix_of ''H'' = Some (array_div [[1, 1], [1, - 1]] (complex_of_real (sqrt 2)))"
    by (simp add: matrix_of_def GATE_MATRICES_def)
  from library_matrices_unitary [OF h, of 1 0] h show ?thesis
    by blast
qed

section \<open>The session\<close>

lemma reachable_invariant:
  "reachable s \<Longrightarrow> circuit_data s = [] \<and> slider_min \<le> num_qubits s \<and> num_qubits s \<le> slider_max"
proof (induction rule: reachable.induct)
  case start
  show ?case
    by (simp add: initial_state_def slider_min_def slider_max_def)
next
  case (slide s n)
  then show ?case
    by (simp add: set_num_qubits_def)
next
  case (reset s)
  then show ?case
    by (simp add: reset_circuit_def)
next
  case (select s k)
  then show ?case
    by (simp add: select_gate_def)
next
  case (place s q t g)
  then show ?case
    by (simp add: place_gate_def)
qed




text \<open>
  C9: \<^verbatim>\<open>place_gate\<close> returns without changing the session, whatever its arguments,
  and in every state a session can reach through the operations of the program the
  placement list is empty.
\<close>

theorem place_gate_is_noop:
  "place_gate q t g s0 = (Inr (), s0) \<and> (reachable s \<longrightarrow> circuit_data s = [])"
  using reachable_invariant [of s] by (simp add: place_gate_def)

theorem place_gate_is_noop_witness:
  "reachable (snd (place_gate 1 0 ''H'' (select_gate ''H'' initial_state))) \<and>
   circuit_data (snd (place_gate 1 0 ''H'' (select_gate ''H'' initial_state))) = []"
proof -
  have "reachable (select_gate ''H'' initial_state)"
    by (rule reachable.select [OF reachable.start]) (simp add: GATE_MATRICES_def)
  then have r: "reachable (snd (place_gate 1 0 ''H'' (select_gate ''H'' initial_state)))"
    by (rule reachable.place)
  from place_gate_is_noop [of 1 0 "''H''" "select_gate ''H'' initial_state"
      "snd (place_gate 1 0 ''H'' (select_gate ''H'' initial_state))"] r
  show ?thesis
    by blast
qed

text \<open>
  C10: after the reset the placement list is empty, and the qubit count and the selected
  gate are what they were. The gate library is a constant, which no handler can change.
\<close>

theorem reset_changes_only_circuit_data:
  "circuit_data (reset_circuit s) = [] \<and>
   num_qubits (reset_circuit s) = num_qubits s \<and>
   selected_gate (reset_circuit s) = selected_gate s \<and>
   reset_circuit s = s\<lparr>circuit_data := []\<rparr>"
  by (simp add: reset_circuit_def)

section \<open>CNOT\<close>

lemma basis_state_length [simp]: "length (basis_state n k) = 2 ^ n"
  by (simp add: basis_state_def)

lemma cnot_on_basis_state:
  assumes c: "c < n" and t: "t < n" and ct: "c \<noteq> t" and k: "k < 2 ^ n"
  shows "apply_cnot c t (basis_state n k)
           = basis_state n (if bit_set k c then flip_target t k else k)"
proof -
  let ?p = "\<lambda>i::nat. if bit i c then flip_bit t i else i"
  have invol: "?p (?p i) = i" for i
    using ct by (simp add: bit_simps flip_flip)
  have below: "?p i < 2 ^ n" if "i < 2 ^ n" for i
    using that t by (simp add: flip_bit_below)
  have "apply_cnot c t (basis_state n k) ! i = basis_state n (?p k) ! i" if i: "i < 2 ^ n" for i
  proof -
    have "apply_cnot c t (basis_state n k) ! i = basis_state n k ! ?p i"
      using i by (simp add: apply_cnot_def bit_set_iff_bit flip_target_eq_flip_bit)
    also have "\<dots> = (if ?p i = k then 1 else 0)"
      using below [OF i] by (simp add: basis_state_def)
    also have "\<dots> = (if i = ?p k then 1 else 0)"
      using invol [of i] invol [of k] by auto
    also have "\<dots> = basis_state n (?p k) ! i"
      using i by (simp add: basis_state_def)
    finally show ?thesis .
  qed
  then have "apply_cnot c t (basis_state n k) = basis_state n (?p k)"
    by (intro nth_equalityI) simp_all
  then show ?thesis
    by (simp add: bit_set_iff_bit flip_target_eq_flip_bit)
qed

lemma upt_4: "[0..<4] = [0, 1, 2, 3]"
  by (simp add: upt_conv_Cons)

lemma basis_state_2:
  "basis_state 2 0 = [1, 0, 0, 0]" "basis_state 2 1 = [0, 1, 0, 0]"
  "basis_state 2 2 = [0, 0, 1, 0]" "basis_state 2 3 = [0, 0, 0, 1]"
  by (simp_all add: basis_state_def upt_conv_Cons)

lemma cnot_matrix_01:
  "cnot_matrix 0 1 = [[1, 0, 0, 0], [0, 0, 0, 1], [0, 0, 1, 0], [0, 1, 0, 0]]"
  unfolding cnot_matrix_def upt_4
  by (simp add: basis_state_2 basis_state_2 [unfolded One_nat_def]
      apply_cnot_4_01 [unfolded One_nat_def])

lemma cnot_matrix_10:
  "cnot_matrix 1 0 = [[1, 0, 0, 0], [0, 1, 0, 0], [0, 0, 0, 1], [0, 0, 1, 0]]"
  unfolding cnot_matrix_def upt_4
  by (simp add: basis_state_2 basis_state_2 [unfolded One_nat_def]
      apply_cnot_4_10 [unfolded One_nat_def])

lemma identity_4:
  "identity 4 = [[1, 0, 0, 0], [0, 1, 0, 0], [0, 0, 1, 0], [0, 0, 0, 1]]"
  by (simp add: identity_def upt_conv_Cons)

lemma cnot_matrix_unitary:
  "mat_mul (cnot_matrix 0 1) (dagger (cnot_matrix 0 1)) = identity 4"
  "mat_mul (cnot_matrix 1 0) (dagger (cnot_matrix 1 0)) = identity 4"
  unfolding cnot_matrix_01 cnot_matrix_10 identity_4
  by (simp_all add: mat_mul_def dagger_def)

text \<open>
  C8, as stated: resolving the CNOT kind in the library would yield a \<open>4 \<times> 4\<close> matrix.
  The library stores no matrix for CNOT.
\<close>

theorem cnot_matrix_counterexample: "matrix_of ''CNOT'' = None"
  by (simp add: matrix_of_def GATE_MATRICES_def)

text \<open>
  C8, amended: the library stores no matrix for CNOT, only the flag
  \<^verbatim>\<open>is_multi_qubit\<close>; the execute handler applies a CNOT placement through the
  controlled-X operation of the simulator. On \<open>n\<close> qubits, with control and target
  distinct and below \<open>n\<close>, that operation maps the basis state \<open>|k>\<close> to itself when
  the control bit of \<open>k\<close> is 0 and to the basis state with the target bit flipped (the
  control bit unchanged) when it is 1, keeping the squared-magnitude sum. On two qubits
  it is, for each ordering of control and target, a fixed \<open>4 \<times> 4\<close> permutation matrix
  \<open>M\<close> with \<open>M M\<^sup>\<dagger> = I\<close>.
\<close>

theorem cnot_permutes_basis_states:
  "matrix_of ''CNOT'' = None \<and>
   map_option is_multi_qubit (map_of GATE_MATRICES ''CNOT'') = Some (Some True) \<and>
   apply_placement \<lparr>gtype = ''CNOT'', qubit = c, target = Some t\<rparr> qc = qc_cx c t qc \<and>
   (c < n \<and> t < n \<and> c \<noteq> t \<and> k < 2 ^ n \<longrightarrow>
      apply_cnot c t (basis_state n k)
        = basis_state n (if bit_set k c then flip_target t k else k) \<and>
      (if bit_set k c then flip_target t k else k) < 2 ^ n \<and>
      bit_set (flip_target t k) t = (\<not> bit_set k t) \<and>
      bit_set (flip_target t k) c = bit_set k c \<and>
      norm_sq (apply_cnot c t (basis_state n k)) = norm_sq (basis_state n k)) \<and>
   cnot_matrix 0 1 = [[1, 0, 0, 0], [0, 0, 0, 1], [0, 0, 1, 0], [0, 1, 0, 0]] \<and>
   cnot_matrix 1 0 = [[1, 0, 0, 0], [0, 1, 0, 0], [0, 0, 0, 1], [0, 0, 1, 0]] \<and>
   mat_mul (cnot_matrix 0 1) (dagger (cnot_matrix 0 1)) = identity 4 \<and>
   mat_mul (cnot_matrix 1 0) (dagger (cnot_matrix 1 0)) = identity 4"
proof -
  have lib: "matrix_of ''CNOT'' = None"
      "map_option is_multi_qubit (map_of GATE_MATRICES ''CNOT'') = Some (Some True)"
    by (simp_all add: matrix_of_def GATE_MATRICES_def)
  have handler: "apply_placement \<lparr>gtype = ''CNOT'', qubit = c, target = Some t\<rparr> qc = qc_cx c t qc"
    by (simp add: apply_placement_def)
  have basis: "apply_cnot c t (basis_state n k)
        = basis_state n (if bit_set k c then flip_target t k else k) \<and>
      (if bit_set k c then flip_target t k else k) < 2 ^ n \<and>
      bit_set (flip_target t k) t = (\<not> bit_set k t) \<and>
      bit_set (flip_target t k) c = bit_set k c \<and>
      norm_sq (apply_cnot c t (basis_state n k)) = norm_sq (basis_state n k)"
    if "c < n" "t < n" "c \<noteq> t" "k < 2 ^ n"
    using that
    by (simp add: cnot_on_basis_state [symmetric] apply_cnot_preserves_norm)
      (simp add: bit_set_iff_bit flip_target_eq_flip_bit flip_bit_below bit_simps)
  from lib handler basis cnot_matrix_01 cnot_matrix_10 cnot_matrix_unitary show ?thesis
    by blast
qed

theorem cnot_permutes_basis_states_witness:
  "(0::nat) < 2 \<and> (1::nat) < 2 \<and> (0::nat) \<noteq> 1 \<and> (1::nat) < 2 ^ 2 \<and>
   apply_cnot 0 1 (basis_state 2 1) = basis_state 2 3 \<and>
   apply_cnot 0 1 [0, 1, 0, 0] = [0, 0, 0, 1]"
proof -
  have h: "(0::nat) < 2 \<and> (1::nat) < 2 \<and> (0::nat) \<noteq> 1 \<and> (1::nat) < 2 ^ 2"
    by simp
  have target: "(if bit_set 1 0 then flip_target 1 1 else 1) = 3"
    by (simp add: bit_set_def flip_target_def)
  from cnot_permutes_basis_states [of 0 1 _ 2 1] h
  have "apply_cnot 0 1 (basis_state 2 1)
      = basis_state 2 (if bit_set 1 0 then flip_target 1 1 else 1)"
    by blast
  with h show ?thesis
    by (simp only: target basis_state_2 simp_thms)
qed

end
